theory Spec2Isabelle
  imports Complex_Main "HOL-Library.AList"
begin

section \<open>Data model of \<open>crypto_analyzer.py\<close>\<close>

text \<open>
  The analyzer keeps one pandas DataFrame in \<open>self.data\<close> and adds columns to it in
  place. A frame is modelled by its row index (one timestamp per bar) and an association
  list from column names to columns, in column order.

  A float cell is \<open>real option\<close>: \<open>None\<close> is NaN, the value pandas writes where a
  rolling computation has no value yet. Arithmetic on cells is exact (rounding of
  float64 is not modelled), and cells hold no infinity: the prices of the provider are
  finite. A scalar taken out of the frame and computed with in \<open>generate_report\<close> is a
  \<open>float64\<close>, which can be an infinity or NaN, and whose arithmetic rounds.
\<close>

datatype error =
    ValueError string
  | KeyError string
  | IntKeyError int
  | IndexError
  | TypeError

datatype column = Num "real option list" | Flag "bool list"

record frame =
  index :: "string list"
  columns :: "(string \<times> column) list"

record analyzer =
  symbol :: string
  start_date :: string
  end_date :: string
  data :: "frame option"

text \<open>\<open>df.empty\<close>: true when any axis of the frame has length 0.\<close>

definition empty :: "frame \<Rightarrow> bool" where
  "empty d = (index d = [] \<or> columns d = [])"

text \<open>\<open>df[name]\<close> raises KeyError for a name that is not a column.\<close>

definition getitem :: "frame \<Rightarrow> string \<Rightarrow> error + column" where
  "getitem d name =
     (case map_of (columns d) name of
        None \<Rightarrow> Inl (KeyError name)
      | Some c \<Rightarrow> Inr c)"

text \<open>\<open>df[name] = series\<close> replaces the column in place, or appends a new one.\<close>

definition setitem :: "frame \<Rightarrow> string \<Rightarrow> column \<Rightarrow> frame" where
  "setitem d name c = d\<lparr>columns := AList.update name c (columns d)\<rparr>"

text \<open>The numeric view of a column: numpy reads a boolean as 0 or 1 in arithmetic.\<close>

fun values_of :: "column \<Rightarrow> real option list" where
  "values_of (Num xs) = xs"
| "values_of (Flag bs) = map (\<lambda>b. Some (if b then 1 else 0)) bs"

text \<open>The number of rows of a column.\<close>

fun col_length :: "column \<Rightarrow> nat" where
  "col_length (Num xs) = length xs"
| "col_length (Flag bs) = length bs"

text \<open>
  The statements of a method run in order on the frame; a statement that raises stops
  the method and leaves the frame as the statements before it made it.
\<close>

fun run_stmts :: "(frame \<Rightarrow> error + frame) list \<Rightarrow> frame \<Rightarrow> error option \<times> frame" where
  "run_stmts [] d = (None, d)"
| "run_stmts (s # ss) d =
     (case s d of
        Inl e \<Rightarrow> (Some e, d)
      | Inr d' \<Rightarrow> run_stmts ss d')"

text \<open>The column a name is bound to in the analyzer's frame, if any.\<close>

definition column_of :: "analyzer \<Rightarrow> string \<Rightarrow> column option" where
  "column_of self name =
     (case data self of
        None \<Rightarrow> None
      | Some d \<Rightarrow> map_of (columns d) name)"

section \<open>Series operations of pandas used by the analyzer\<close>

text \<open>
  Elementwise comparison of two series with the same index. A comparison with NaN on
  either side is false.
\<close>

fun cell_gt :: "real option \<Rightarrow> real option \<Rightarrow> bool" where
  "cell_gt (Some a) (Some b) = (a > b)"
| "cell_gt _ _ = False"

fun cell_lt :: "real option \<Rightarrow> real option \<Rightarrow> bool" where
  "cell_lt (Some a) (Some b) = (a < b)"
| "cell_lt _ _ = False"

fun cell_le :: "real option \<Rightarrow> real option \<Rightarrow> bool" where
  "cell_le (Some a) (Some b) = (a \<le> b)"
| "cell_le _ _ = False"

fun cell_ge :: "real option \<Rightarrow> real option \<Rightarrow> bool" where
  "cell_ge (Some a) (Some b) = (a \<ge> b)"
| "cell_ge _ _ = False"

text \<open>\<open>s.shift(1)\<close>: every value moves one row down, the first row becomes NaN.\<close>

definition shift1 :: "real option list \<Rightarrow> real option list" where
  "shift1 xs = (if xs = [] then [] else None # butlast xs)"

text \<open>
  Line 52: \<open>(SMA20 > SMA50) & (SMA20.shift(1) <= SMA50.shift(1))\<close>, and line 55 with
  \<open><\<close> and \<open>>=\<close>.
\<close>

definition golden_cross :: "real option list \<Rightarrow> real option list \<Rightarrow> bool list" where
  "golden_cross fast slow =
     map2 (\<and>) (map2 cell_gt fast slow) (map2 cell_le (shift1 fast) (shift1 slow))"

definition death_cross :: "real option list \<Rightarrow> real option list \<Rightarrow> bool list" where
  "death_cross fast slow =
     map2 (\<and>) (map2 cell_lt fast slow) (map2 cell_ge (shift1 fast) (shift1 slow))"

text \<open>Lines 58 and 61: \<open>RSI < 30\<close> and \<open>RSI > 70\<close>.\<close>

definition oversold :: "real option list \<Rightarrow> bool list" where
  "oversold rsi = map (\<lambda>x. cell_lt x (Some 30)) rsi"

definition overbought :: "real option list \<Rightarrow> bool list" where
  "overbought rsi = map (\<lambda>x. cell_gt x (Some 70)) rsi"

section \<open>The pattern detector: \<open>identify_patterns\<close>\<close>

definition stmt_golden_cross :: "frame \<Rightarrow> error + frame" where
  "stmt_golden_cross d =
     (case getitem d ''SMA20'' of
        Inl e \<Rightarrow> Inl e
      | Inr fast \<Rightarrow>
          (case getitem d ''SMA50'' of
             Inl e \<Rightarrow> Inl e
           | Inr slow \<Rightarrow>
               Inr (setitem d ''Golden_Cross''
                      (Flag (golden_cross (values_of fast) (values_of slow))))))"

definition stmt_death_cross :: "frame \<Rightarrow> error + frame" where
  "stmt_death_cross d =
     (case getitem d ''SMA20'' of
        Inl e \<Rightarrow> Inl e
      | Inr fast \<Rightarrow>
          (case getitem d ''SMA50'' of
             Inl e \<Rightarrow> Inl e
           | Inr slow \<Rightarrow>
               Inr (setitem d ''Death_Cross''
                      (Flag (death_cross (values_of fast) (values_of slow))))))"

definition stmt_oversold :: "frame \<Rightarrow> error + frame" where
  "stmt_oversold d =
     (case getitem d ''RSI'' of
        Inl e \<Rightarrow> Inl e
      | Inr r \<Rightarrow> Inr (setitem d ''Oversold'' (Flag (oversold (values_of r)))))"

definition stmt_overbought :: "frame \<Rightarrow> error + frame" where
  "stmt_overbought d =
     (case getitem d ''RSI'' of
        Inl e \<Rightarrow> Inl e
      | Inr r \<Rightarrow> Inr (setitem d ''Overbought'' (Flag (overbought (values_of r)))))"

text \<open>
  The method returns nothing: the result is the exception raised, if any, and the
  analyzer as the method left it. \<open>self.data\<close> is \<open>None\<close> only inside the constructor;
  subscripting \<open>None\<close> is a TypeError.
\<close>

definition identify_patterns :: "analyzer \<Rightarrow> error option \<times> analyzer" where
  "identify_patterns self =
     (case data self of
        None \<Rightarrow> (Some TypeError, self)
      | Some d \<Rightarrow>
          (let (r, d') =
                 run_stmts [stmt_golden_cross, stmt_death_cross,
                            stmt_oversold, stmt_overbought] d
           in (r, self\<lparr>data := Some d'\<rparr>)))"

section \<open>The constructor and \<open>load_data\<close>\<close>

text \<open>
  \<open>yf_history ticker start end\<close> is the frame that
  \<open>yf.Ticker(ticker).history(start=start, end=end)\<close> returns: the data provider is
  outside the repository and is a parameter of the model. So are the two strings that
  \<open>datetime.now()\<close> formats to: \<open>year_ago\<close> and \<open>today\<close>.
\<close>

definition load_data ::
  "(string \<Rightarrow> string \<Rightarrow> string \<Rightarrow> frame) \<Rightarrow> analyzer \<Rightarrow> error option \<times> analyzer" where
  "load_data yf_history self =
     (let d = yf_history (symbol self @ ''-USD'') (start_date self) (end_date self);
          self' = self\<lparr>data := Some d\<rparr>
      in if empty d
         then (Some (ValueError (''No data found for '' @ symbol self)), self')
         else (None, self'))"

text \<open>\<open>x or default\<close>: the default stands in for \<open>None\<close> and for the empty string.\<close>

fun or_default :: "string option \<Rightarrow> string \<Rightarrow> string" where
  "or_default None dflt = dflt"
| "or_default (Some s) dflt = (if s = [] then dflt else s)"

text \<open>
  \<open>CryptoAnalyzer(symbol, start_date, end_date)\<close>: an exception of \<open>load_data\<close> leaves
  the constructor, and no analyzer exists.
\<close>

definition init ::
  "(string \<Rightarrow> string \<Rightarrow> string \<Rightarrow> frame) \<Rightarrow> string \<Rightarrow> string \<Rightarrow>
   string \<Rightarrow> string option \<Rightarrow> string option \<Rightarrow> error + analyzer" where
  "init yf_history year_ago today symbol0 start0 end0 =
     (let self = \<lparr>symbol = symbol0,
                   start_date = or_default start0 year_ago,
                   end_date = or_default end0 today,
                   data = None\<rparr>
      in case load_data yf_history self of
           (Some e, _) \<Rightarrow> Inl e
         | (None, self') \<Rightarrow> Inr self')"

section \<open>The indicator library\<close>

text \<open>
  \<open>add_indicators\<close> computes nothing itself: it calls \<open>SMAIndicator\<close>, \<open>EMAIndicator\<close>,
  \<open>RSIIndicator\<close> and \<open>BollingerBands\<close> of the package \<open>ta\<close>, which call pandas'
  \<open>rolling\<close> and \<open>ewm\<close>. Neither package is under \<open>src/\<close>. Every definition of
  this section stands for code that is missing there. It follows section 4.1 of the
  spec where the spec fixes the behaviour, and otherwise the call that \<open>ta\<close> makes
  (always with \<open>fillna=False\<close>, so that \<open>min_periods\<close> is the window) as pandas
  documents it; each comment says which.
\<close>

text \<open>
  Modelled from the spec: the rolling mean behind \<open>SMAIndicator\<close> and
  \<open>BollingerBands\<close> (package \<open>ta\<close>, not under \<open>src/\<close>). Spec 4.1: the arithmetic mean
  of the trailing \<open>window\<close> closes ending at each index, absent for the indices below
  \<open>window - 1\<close>. This is \<open>close.rolling(window, min_periods=window).mean()\<close>: at row
  \<open>i\<close> the window holds the rows \<open>i - window + 1 .. i\<close>, and the result is NaN unless
  the window is full and none of its values is NaN.
\<close>

definition rolling_window :: "nat \<Rightarrow> real option list \<Rightarrow> nat \<Rightarrow> real list option" where
  "rolling_window w xs i =
     (if 0 < w \<and> w \<le> Suc i then those (take w (drop (Suc i - w) xs)) else None)"

definition mean :: "real list \<Rightarrow> real" where
  "mean vs = sum_list vs / real (length vs)"

definition rolling_mean :: "nat \<Rightarrow> real option list \<Rightarrow> real option list" where
  "rolling_mean w xs = map (\<lambda>i. map_option mean (rolling_window w xs i)) [0..<length xs]"

text \<open>
  Modelled from the spec: the rolling deviation behind \<open>BollingerBands\<close> (package \<open>ta\<close>,
  not under \<open>src/\<close>). Spec 4.1 leaves the convention open; \<open>ta\<close> calls
  \<open>close.rolling(window, min_periods=window).std(ddof=0)\<close>, the population deviation.
\<close>

definition pstdev :: "real list \<Rightarrow> real" where
  "pstdev vs = sqrt (sum_list (map (\<lambda>v. (v - mean vs)\<^sup>2) vs) / real (length vs))"

definition rolling_std :: "nat \<Rightarrow> real option list \<Rightarrow> real option list" where
  "rolling_std w xs = map (\<lambda>i. map_option pstdev (rolling_window w xs i)) [0..<length xs]"

text \<open>
  Modelled from the spec: the exponential smoothing behind \<open>EMAIndicator\<close> and
  \<open>RSIIndicator\<close> (package \<open>ta\<close>, not under \<open>src/\<close>). Spec 4.1 gives the step
  \<open>ema[i] = alpha * close[i] + (1 - alpha) * ema[i-1]\<close> and the absence before the
  window is full. Where the recursion starts is taken from the call \<open>ta\<close> makes, not
  from the spec's words:
  \<open>s.ewm(alpha=alpha, min_periods=minp, adjust=False).mean()\<close>. pandas starts the
  average at the first value, \<open>y\<^sub>0 = x\<^sub>0\<close>, and continues with
  \<open>y\<^sub>t = (1 - alpha) * y\<^sub>t\<^sub>-\<^sub>1 + alpha * x\<^sub>t\<close>; it shows \<open>y\<^sub>t\<close> once \<open>minp\<close> values have been
  seen. Over a NaN the average is carried on and the weight of the past decays
  (\<open>ignore_na=False\<close>). The state of pandas' loop is the average \<open>weighted\<close>, the
  weight \<open>old_wt\<close> of the past and the number \<open>nobs\<close> of values seen.
\<close>

fun ewm_loop ::
  "real \<Rightarrow> nat \<Rightarrow> real option \<Rightarrow> real \<Rightarrow> nat \<Rightarrow> real option list \<Rightarrow> real option list" where
  "ewm_loop alpha minp weighted old_wt nobs [] = []"
| "ewm_loop alpha minp weighted old_wt nobs (cur # rest) =
     (let nobs' = nobs + (if cur = None then 0 else 1);
          (weighted', old_wt') =
            (case weighted of
               None \<Rightarrow> (cur, old_wt)
             | Some wv \<Rightarrow>
                 (case cur of
                    None \<Rightarrow> (Some wv, old_wt * (1 - alpha))
                  | Some c \<Rightarrow>
                      (Some (if wv \<noteq> c
                             then (old_wt * (1 - alpha) * wv + alpha * c)
                                  / (old_wt * (1 - alpha) + alpha)
                             else wv),
                       1)))
      in (if minp \<le> nobs' then weighted' else None)
         # ewm_loop alpha minp weighted' old_wt' nobs' rest)"

definition ewm_mean :: "real \<Rightarrow> nat \<Rightarrow> real option list \<Rightarrow> real option list" where
  "ewm_mean alpha min_periods xs = ewm_loop alpha (max min_periods 1) None 1 0 xs"

text \<open>
  Modelled from the spec: \<open>SMAIndicator(close, window).sma_indicator()\<close> (package
  \<open>ta\<close>, not under \<open>src/\<close>), the rolling mean of spec 4.1.
\<close>

definition sma_indicator :: "real option list \<Rightarrow> nat \<Rightarrow> real option list" where
  "sma_indicator close window = rolling_mean window close"

text \<open>
  Modelled from the spec: \<open>EMAIndicator(close, window).ema_indicator()\<close> (package
  \<open>ta\<close>, not under \<open>src/\<close>). Spec 4.1: the smoothing factor is
  \<open>alpha = 2 / (window + 1)\<close>. The call of \<open>ta\<close> is
  \<open>close.ewm(span=window, min_periods=window, adjust=False).mean()\<close>.
\<close>

definition ema_indicator :: "real option list \<Rightarrow> nat \<Rightarrow> real option list" where
  "ema_indicator close window = ewm_mean (2 / (real window + 1)) window close"

text \<open>
  Modelled from the spec: \<open>RSIIndicator(close, window).rsi()\<close> (package \<open>ta\<close>, not
  under \<open>src/\<close>). Spec 4.1: gain = max(delta, 0) and loss = max(-delta, 0) per step,
  both smoothed with \<open>alpha = 1 / window\<close>, \<open>RSI = 100 - 100 / (1 + RS)\<close> with
  \<open>RS = avg_gain / avg_loss\<close>, and 100 when the average loss is 0. The smoothing is
  the one \<open>ta\<close> calls, which starts at the first row. \<open>diff = close.diff(1)\<close>;
  \<open>up_direction = diff.where(diff > 0, 0.0)\<close> and
  \<open>down_direction = -diff.where(diff < 0, 0.0)\<close> (a NaN difference gives 0 in both);
  both are smoothed with \<open>ewm(alpha=1/window, min_periods=window, adjust=False)\<close>, and
  the index is \<open>np.where(emadn == 0, 100, 100 - (100 / (1 + emaup / emadn)))\<close>.
\<close>

fun cell_sub :: "real option \<Rightarrow> real option \<Rightarrow> real option" where
  "cell_sub (Some a) (Some b) = Some (a - b)"
| "cell_sub _ _ = None"

definition diff1 :: "real option list \<Rightarrow> real option list" where
  "diff1 xs = map2 cell_sub xs (shift1 xs)"

definition up_direction :: "real option list \<Rightarrow> real option list" where
  "up_direction close = map (\<lambda>d. if cell_gt d (Some 0) then d else Some 0) (diff1 close)"

definition down_direction :: "real option list \<Rightarrow> real option list" where
  "down_direction close =
     map (\<lambda>d. map_option uminus (if cell_lt d (Some 0) then d else Some 0)) (diff1 close)"

definition emaup :: "real option list \<Rightarrow> nat \<Rightarrow> real option list" where
  "emaup close window = ewm_mean (1 / real window) window (up_direction close)"

definition emadn :: "real option list \<Rightarrow> nat \<Rightarrow> real option list" where
  "emadn close window = ewm_mean (1 / real window) window (down_direction close)"

fun rsi_cell :: "real option \<Rightarrow> real option \<Rightarrow> real option" where
  "rsi_cell up (Some dn) =
     (if dn = 0 then Some 100
      else (case up of
              None \<Rightarrow> None
            | Some u \<Rightarrow> Some (100 - 100 / (1 + u / dn))))"
| "rsi_cell up None = None"

definition rsi :: "real option list \<Rightarrow> nat \<Rightarrow> real option list" where
  "rsi close window = map2 rsi_cell (emaup close window) (emadn close window)"

text \<open>
  Modelled from the spec: \<open>BollingerBands(close, window, window_dev)\<close> (package \<open>ta\<close>,
  not under \<open>src/\<close>). Spec 4.1: the middle band is the rolling mean, the upper and
  the lower band lie \<open>window_dev\<close> rolling deviations above and below it.
\<close>

fun cell_add :: "real option \<Rightarrow> real option \<Rightarrow> real option" where
  "cell_add (Some a) (Some b) = Some (a + b)"
| "cell_add _ _ = None"

definition bollinger_mavg :: "real option list \<Rightarrow> nat \<Rightarrow> real option list" where
  "bollinger_mavg close window = rolling_mean window close"

definition bollinger_hband :: "real option list \<Rightarrow> nat \<Rightarrow> real \<Rightarrow> real option list" where
  "bollinger_hband close window window_dev =
     map2 cell_add (rolling_mean window close)
       (map (map_option (\<lambda>s. window_dev * s)) (rolling_std window close))"

definition bollinger_lband :: "real option list \<Rightarrow> nat \<Rightarrow> real \<Rightarrow> real option list" where
  "bollinger_lband close window window_dev =
     map2 cell_sub (rolling_mean window close)
       (map (map_option (\<lambda>s. window_dev * s)) (rolling_std window close))"

section \<open>The indicator engine: \<open>add_indicators\<close>\<close>

text \<open>
  Every indicator is built from \<open>self.data['Close']\<close> and stored under its name. The
  defaults of \<open>ta\<close> are a window of 14 for the RSI, and a window of 20 and a
  deviation factor of 2 for the Bollinger bands.
\<close>

definition stmt_sma20 :: "frame \<Rightarrow> error + frame" where
  "stmt_sma20 d =
     (case getitem d ''Close'' of
        Inl e \<Rightarrow> Inl e
      | Inr c \<Rightarrow> Inr (setitem d ''SMA20'' (Num (sma_indicator (values_of c) 20))))"

definition stmt_sma50 :: "frame \<Rightarrow> error + frame" where
  "stmt_sma50 d =
     (case getitem d ''Close'' of
        Inl e \<Rightarrow> Inl e
      | Inr c \<Rightarrow> Inr (setitem d ''SMA50'' (Num (sma_indicator (values_of c) 50))))"

definition stmt_ema20 :: "frame \<Rightarrow> error + frame" where
  "stmt_ema20 d =
     (case getitem d ''Close'' of
        Inl e \<Rightarrow> Inl e
      | Inr c \<Rightarrow> Inr (setitem d ''EMA20'' (Num (ema_indicator (values_of c) 20))))"

definition stmt_rsi :: "frame \<Rightarrow> error + frame" where
  "stmt_rsi d =
     (case getitem d ''Close'' of
        Inl e \<Rightarrow> Inl e
      | Inr c \<Rightarrow> Inr (setitem d ''RSI'' (Num (rsi (values_of c) 14))))"

definition stmt_bollinger :: "frame \<Rightarrow> error + frame" where
  "stmt_bollinger d =
     (case getitem d ''Close'' of
        Inl e \<Rightarrow> Inl e
      | Inr c \<Rightarrow>
          Inr (setitem
                 (setitem
                    (setitem d ''BB_upper'' (Num (bollinger_hband (values_of c) 20 2)))
                    ''BB_lower'' (Num (bollinger_lband (values_of c) 20 2)))
                 ''BB_middle'' (Num (bollinger_mavg (values_of c) 20))))"

definition add_indicators :: "analyzer \<Rightarrow> error option \<times> analyzer" where
  "add_indicators self =
     (case data self of
        None \<Rightarrow> (Some TypeError, self)
      | Some d \<Rightarrow>
          (let (r, d') =
                 run_stmts [stmt_sma20, stmt_sma50, stmt_ema20, stmt_rsi, stmt_bollinger] d
           in (r, self\<lparr>data := Some d'\<rparr>)))"

section \<open>The report reducer: \<open>generate_report\<close>\<close>

text \<open>
  Two things that \<open>generate_report\<close> depends on are fixed neither by the repository
  nor by HOL, and are parameters of the model.
  \<^item> \<open>positional\<close>: whether \<open>series[k]\<close> with an integer \<open>k\<close> on a series indexed by
    dates reads by position. pandas below version 3 does (a negative \<open>k\<close> counts from
    the end, and IndexError is raised out of range); from version 3 on the integer is
    looked up as a label of the date index and KeyError is raised. No version is pinned.
  \<^item> \<open>round64\<close>: the float64 that an exact result is rounded to, an infinity when it
    is too large.
\<close>

datatype float64 = Finite real | Infinity | NaN

record runtime =
  positional :: bool
  round64 :: "real \<Rightarrow> float64"

text \<open>
  \<open>self.data['Close'][0]\<close> is a numpy float64. Its arithmetic follows IEEE 754 and
  raises nothing: a division by zero gives an infinity, or NaN for 0/0, with a warning.
  \<open>Infinity\<close> stands for the infinity of either sign: a cell does not record the sign of
  a zero, which decides the sign of a quotient by it. The operations have the operands
  of line 124: the difference of two cells, its quotient by a cell, and the product
  with the literal 100.
\<close>

fun of_cell :: "real option \<Rightarrow> float64" where
  "of_cell (Some x) = Finite x"
| "of_cell None = NaN"


fun fsub :: "(real \<Rightarrow> float64) \<Rightarrow> real option \<Rightarrow> real option \<Rightarrow> float64" where
  "fsub rnd (Some a) (Some b) = rnd (a - b)"
| "fsub rnd _ _ = NaN"

fun fdiv :: "(real \<Rightarrow> float64) \<Rightarrow> float64 \<Rightarrow> real option \<Rightarrow> float64" where
  "fdiv rnd NaN _ = NaN"
| "fdiv rnd _ None = NaN"
| "fdiv rnd (Finite a) (Some b) =
     (if b = 0 then (if a = 0 then NaN else Infinity) else rnd (a / b))"
| "fdiv rnd Infinity (Some b) = Infinity"

fun fmul :: "(real \<Rightarrow> float64) \<Rightarrow> float64 \<Rightarrow> real \<Rightarrow> float64" where
  "fmul rnd (Finite a) b = rnd (a * b)"
| "fmul rnd Infinity b = (if b = 0 then NaN else Infinity)"
| "fmul rnd NaN b = NaN"

text \<open>A read by position: a negative \<open>k\<close> counts from the end.\<close>

definition iloc :: "'a list \<Rightarrow> int \<Rightarrow> error + 'a" where
  "iloc xs k =
     (let n = int (length xs); j = (if k < 0 then n + k else k)
      in if 0 \<le> j \<and> j < n then Inr (xs ! nat j) else Inl IndexError)"

text \<open>\<open>series[k]\<close> with an integer \<open>k\<close>, on a series indexed by dates.\<close>

definition series_getitem :: "bool \<Rightarrow> 'a list \<Rightarrow> int \<Rightarrow> error + 'a" where
  "series_getitem by_position xs k =
     (if by_position then iloc xs k else Inl (IntKeyError k))"

text \<open>Sequencing of computations that may raise.\<close>

fun bind_result :: "error + 'a \<Rightarrow> ('a \<Rightarrow> error + 'b) \<Rightarrow> error + 'b" where
  "bind_result (Inl e) f = Inl e"
| "bind_result (Inr v) f = f v"

text \<open>\<open>self.data[name][k]\<close>, the cell as it is stored.\<close>

definition cell_at :: "runtime \<Rightarrow> string \<Rightarrow> int \<Rightarrow> frame \<Rightarrow> error + real option" where
  "cell_at rt name k d =
     bind_result (getitem d name) (\<lambda>c. series_getitem (positional rt) (values_of c) k)"

text \<open>
  \<open>len(self.data[self.data[name]])\<close>: the rows a boolean column selects. A column of
  floats is no mask: pandas looks its values up as column labels and raises KeyError.
\<close>

definition mask_count :: "string \<Rightarrow> frame \<Rightarrow> error + nat" where
  "mask_count name d =
     bind_result (getitem d name) (\<lambda>c.
       case c of
         Flag bs \<Rightarrow> Inr (length (filter (\<lambda>b. b) bs))
       | Num xs \<Rightarrow> Inl (KeyError ''not in the columns''))"

text \<open>
  Line 124: \<open>((Close[-1] - Close[0]) / Close[0]) * 100\<close>, the reads from left to
  right.
\<close>

definition price_change :: "runtime \<Rightarrow> frame \<Rightarrow> error + float64" where
  "price_change rt d =
     bind_result (cell_at rt ''Close'' (- 1) d) (\<lambda>last_close.
     bind_result (cell_at rt ''Close'' 0 d) (\<lambda>first_close.
     bind_result (cell_at rt ''Close'' 0 d) (\<lambda>divisor.
       Inr (fmul (round64 rt)
              (fdiv (round64 rt) (fsub (round64 rt) last_close first_close) divisor)
              100))))"

record report =
  Symbol :: string
  Period :: string
  Current_Price :: float64
  Price_Change :: float64
  RSI :: float64
  Golden_Crosses :: nat
  Death_Crosses :: nat
  Times_Oversold :: nat
  Times_Overbought :: nat

text \<open>
  The method is a sequence of steps on the analyzer. Each step hands the analyzer on
  to the next one, together with its value or the exception it raised; an exception
  ends the sequence.
\<close>

type_synonym 'a action = "analyzer \<Rightarrow> (error + 'a) \<times> analyzer"

definition return_action :: "'a \<Rightarrow> 'a action" where
  "return_action v self = (Inr v, self)"

definition bind_action :: "'a action \<Rightarrow> ('a \<Rightarrow> 'b action) \<Rightarrow> 'b action" where
  "bind_action m f self =
     (case m self of
        (Inl e, self') \<Rightarrow> (Inl e, self')
      | (Inr v, self') \<Rightarrow> f v self')"

text \<open>
  An expression that reads \<open>self.data\<close>: subscripting and selecting rows build new
  objects and store nothing. Subscripting \<open>None\<close> is a TypeError.
\<close>

definition read_frame :: "(frame \<Rightarrow> error + 'a) \<Rightarrow> 'a action" where
  "read_frame f self =
     (case data self of
        None \<Rightarrow> (Inl TypeError, self)
      | Some d \<Rightarrow> (f d, self))"

text \<open>An attribute of \<open>self\<close> read into the report.\<close>

definition read_attribute :: "(analyzer \<Rightarrow> 'a) \<Rightarrow> 'a action" where
  "read_attribute f self = (Inr (f self), self)"

text \<open>Lines 120 to 131: the entries of the dictionary are evaluated in order.\<close>

definition generate_report :: "runtime \<Rightarrow> report action" where
  "generate_report rt =
     bind_action (read_attribute symbol) (\<lambda>sym.
     bind_action (read_attribute (\<lambda>self. start_date self @ '' to '' @ end_date self))
       (\<lambda>period.
     bind_action (read_frame (cell_at rt ''Close'' (- 1))) (\<lambda>current.
     bind_action (read_frame (price_change rt)) (\<lambda>change.
     bind_action (read_frame (cell_at rt ''RSI'' (- 1))) (\<lambda>rsi_last.
     bind_action (read_frame (mask_count ''Golden_Cross'')) (\<lambda>golden.
     bind_action (read_frame (mask_count ''Death_Cross'')) (\<lambda>death.
     bind_action (read_frame (mask_count ''Oversold'')) (\<lambda>n_oversold.
     bind_action (read_frame (mask_count ''Overbought'')) (\<lambda>n_overbought.
       return_action
         \<lparr>Symbol = sym,
          Period = period,
          Current_Price = of_cell current,
          Price_Change = change,
          RSI = of_cell rsi_last,
          Golden_Crosses = golden,
          Death_Crosses = death,
          Times_Oversold = n_oversold,
          Times_Overbought = n_overbought\<rparr>)))))))))"

section \<open>The pipeline of \<open>main\<close>\<close>

text \<open>
  \<open>main\<close> builds the analyzer for BTC with the default dates, adds the indicators,
  identifies the patterns and prints the report; the chart it then draws is outside the
  model. An exception at any step ends the run.
\<close>

definition main ::
  "runtime \<Rightarrow> (string \<Rightarrow> string \<Rightarrow> string \<Rightarrow> frame) \<Rightarrow> string \<Rightarrow> string \<Rightarrow> error + report" where
  "main rt yf_history year_ago today =
     (case init yf_history year_ago today ''BTC'' None None of
        Inl e \<Rightarrow> Inl e
      | Inr analyzer0 \<Rightarrow>
          (case add_indicators analyzer0 of
             (Some e, _) \<Rightarrow> Inl e
           | (None, analyzer1) \<Rightarrow>
               (case identify_patterns analyzer1 of
                  (Some e, _) \<Rightarrow> Inl e
                | (None, analyzer2) \<Rightarrow> fst (generate_report rt analyzer2))))"

section \<open>Reference descriptions of the indicator columns\<close>

text \<open>
  The recursion pandas documents for \<open>ewm(adjust=False)\<close> on a series without NaN:
  it starts at the first value and moves by \<open>alpha\<close> towards each next one.
\<close>

fun ewm_rec :: "real \<Rightarrow> real list \<Rightarrow> nat \<Rightarrow> real" where
  "ewm_rec alpha xs 0 = xs ! 0"
| "ewm_rec alpha xs (Suc t) = (1 - alpha) * ewm_rec alpha xs t + alpha * xs ! Suc t"

text \<open>
  The shape of a column of \<open>L\<close> rows with a warm-up of \<open>w\<close>: the first \<open>w - 1\<close> rows
  (all \<open>L\<close> of them when there are fewer) are absent, and the \<open>L - (w - 1)\<close> rows that
  follow are present.
\<close>

definition absent_then_present :: "nat \<Rightarrow> nat \<Rightarrow> real option list \<Rightarrow> bool" where
  "absent_then_present L w c =
     (\<exists>vs. c = replicate (min L (w - 1)) None @ map Some vs \<and> length vs = L - (w - 1))"

section \<open>Example inputs\<close>

text \<open>A frame of four bars that already has the two moving averages.\<close>

definition ex_frame :: frame where
  "ex_frame =
     \<lparr>index = [''2024-01-01'', ''2024-01-02'', ''2024-01-03'', ''2024-01-04''],
      columns = [(''Close'', Num [Some 1, Some 2, Some 3, Some 1]),
                 (''SMA20'', Num [None, Some 1, Some 3, Some 1]),
                 (''SMA50'', Num [None, Some 1, Some 2, Some 2])]\<rparr>"

definition ex_analyzer :: analyzer where
  "ex_analyzer =
     \<lparr>symbol = ''BTC'', start_date = ''2024-01-01'', end_date = ''2024-01-04'',
      data = Some ex_frame\<rparr>"

text \<open>The same analyzer with an RSI column, so that \<open>identify_patterns\<close> returns.\<close>

definition ex_patterns :: analyzer where
  "ex_patterns =
     ex_analyzer\<lparr>data := Some (setitem ex_frame ''RSI'' (Num [None, None, Some 20, Some 80]))\<rparr>"

text \<open>A provider that answers every request with the same two bars.\<close>

definition ex_history :: "string \<Rightarrow> string \<Rightarrow> string \<Rightarrow> frame" where
  "ex_history ticker start0 end0 =
     \<lparr>index = [''2024-01-01'', ''2024-01-02''],
      columns = [(''Open'', Num [Some 1, Some 2]), (''High'', Num [Some 3, Some 4]),
                 (''Low'', Num [Some 1, Some 1]), (''Close'', Num [Some 2, Some 3])]\<rparr>"

text \<open>Twenty-one bars: nineteen closes of 0, then two of 21.\<close>

definition ex_closes :: "real list" where
  "ex_closes = [0, 0, 0, 0, 0, 0, 0, 0, 0, 0, 0, 0, 0, 0, 0, 0, 0, 0, 0, 21, 21]"

definition ex_loaded :: analyzer where
  "ex_loaded =
     \<lparr>symbol = ''BTC'', start_date = ''2024-01-01'', end_date = ''2024-01-21'',
      data = Some \<lparr>index = map (\<lambda>n. ''bar'') ex_closes,
                   columns = [(''Close'', Num (map Some ex_closes))]\<rparr>\<rparr>"

text \<open>Six bars that rise and fall.\<close>

definition ex_short :: analyzer where
  "ex_short =
     \<lparr>symbol = ''BTC'', start_date = ''2024-01-01'', end_date = ''2024-01-06'',
      data = Some \<lparr>index = [''2024-01-01'', ''2024-01-02'', ''2024-01-03'',
                            ''2024-01-04'', ''2024-01-05'', ''2024-01-06''],
                   columns = [(''Close'', Num (map Some [1, 2, 3, 2, 5, 1]))]\<rparr>\<rparr>"

text \<open>
  A runtime for the examples: pandas reads by position, and the rounding is exact. On
  the small numbers of the examples float64 rounding is exact too.
\<close>

definition ex_runtime :: runtime where
  "ex_runtime = \<lparr>positional = True, round64 = Finite\<rparr>"

text \<open>A provider that has no bars: the frame has its columns and no row.\<close>

definition no_history :: "string \<Rightarrow> string \<Rightarrow> string \<Rightarrow> frame" where
  "no_history ticker start0 end0 = \<lparr>index = [], columns = [(''Close'', Num [])]\<rparr>"

section \<open>Facts about the series operations\<close>

lemma length_shift1: "length (shift1 xs) = length xs"
  by (simp add: shift1_def)

lemma shift1_nth:
  "i < length xs \<Longrightarrow> shift1 xs ! i = (if i = 0 then None else xs ! (i - 1))"
  by (cases i) (auto simp: shift1_def nth_butlast)

lemma length_golden_cross:
  "length (golden_cross fast slow) = min (length fast) (length slow)"
  by (simp add: golden_cross_def length_shift1)

lemma length_death_cross:
  "length (death_cross fast slow) = min (length fast) (length slow)"
  by (simp add: death_cross_def length_shift1)

lemma cell_gt_iff: "cell_gt x y = (\<exists>a b. x = Some a \<and> y = Some b \<and> a > b)"
  by (cases x; cases y) auto

lemma cell_lt_iff: "cell_lt x y = (\<exists>a b. x = Some a \<and> y = Some b \<and> a < b)"
  by (cases x; cases y) auto

lemma cell_le_iff: "cell_le x y = (\<exists>a b. x = Some a \<and> y = Some b \<and> a \<le> b)"
  by (cases x; cases y) auto

lemma cell_ge_iff: "cell_ge x y = (\<exists>a b. x = Some a \<and> y = Some b \<and> a \<ge> b)"
  by (cases x; cases y) auto

lemma golden_cross_nth:
  assumes "i < length fast" and "i < length slow"
  shows "golden_cross fast slow ! i =
           (cell_gt (fast ! i) (slow ! i) \<and>
            0 < i \<and> cell_le (fast ! (i - 1)) (slow ! (i - 1)))"
  using assms by (auto simp: golden_cross_def length_shift1 shift1_nth)

lemma death_cross_nth:
  assumes "i < length fast" and "i < length slow"
  shows "death_cross fast slow ! i =
           (cell_lt (fast ! i) (slow ! i) \<and>
            0 < i \<and> cell_ge (fast ! (i - 1)) (slow ! (i - 1)))"
  using assms by (auto simp: death_cross_def length_shift1 shift1_nth)

lemma not_gt_and_lt: "\<not> (cell_gt x y \<and> cell_lt x y)"
  by (cases x; cases y) auto

text \<open>What the four statements leave in the frame, for any frame that has the inputs.\<close>

lemma identify_patterns_crosses:
  assumes "data self = Some d"
    and "map_of (columns d) ''SMA20'' = Some fast"
    and "map_of (columns d) ''SMA50'' = Some slow"
  shows "column_of (snd (identify_patterns self)) ''Golden_Cross'' =
           Some (Flag (golden_cross (values_of fast) (values_of slow)))"
    and "column_of (snd (identify_patterns self)) ''Death_Cross'' =
           Some (Flag (death_cross (values_of fast) (values_of slow)))"
  using assms
  by (auto simp: identify_patterns_def column_of_def stmt_golden_cross_def
      stmt_death_cross_def stmt_oversold_def stmt_overbought_def getitem_def setitem_def
      update_conv' split: option.splits sum.splits prod.splits)

lemma length_values_of: "length (values_of c) = col_length c"
  by (cases c) simp_all

lemma identify_patterns_returns:
  assumes "identify_patterns self = (None, self')"
  shows "\<exists>d fast slow. data self = Some d \<and> map_of (columns d) ''SMA20'' = Some fast
           \<and> map_of (columns d) ''SMA50'' = Some slow"
  using assms
  by (auto simp: identify_patterns_def stmt_golden_cross_def getitem_def
      split: option.splits sum.splits prod.splits)



section \<open>Facts about the indicator library\<close>

lemma those_map_Some: "those (map Some ys) = Some ys"
  by (induction ys) simp_all

lemma rolling_window_Some:
  "rolling_window w (map Some cs) i =
     (if 0 < w \<and> w \<le> Suc i then Some (take w (drop (Suc i - w) cs)) else None)"
  by (simp add: rolling_window_def take_map drop_map those_map_Some)

lemma length_rolling_mean: "length (rolling_mean w xs) = length xs"
  by (simp add: rolling_mean_def)

lemma length_rolling_std: "length (rolling_std w xs) = length xs"
  by (simp add: rolling_std_def)

lemma rolling_mean_nth:
  "i < length cs \<Longrightarrow> rolling_mean w (map Some cs) ! i =
     (if 0 < w \<and> w \<le> Suc i then Some (mean (take w (drop (Suc i - w) cs))) else None)"
  by (simp add: rolling_mean_def rolling_window_Some)

lemma rolling_std_nth:
  "i < length cs \<Longrightarrow> rolling_std w (map Some cs) ! i =
     (if 0 < w \<and> w \<le> Suc i then Some (pstdev (take w (drop (Suc i - w) cs))) else None)"
  by (simp add: rolling_std_def rolling_window_Some)

text \<open>A column that is absent exactly before row w - 1 has the warm-up shape.\<close>

lemma absent_then_presentI:
  assumes len: "length c = L" and w: "0 < w"
    and nth: "\<And>i. i < L \<Longrightarrow> (c ! i = None) = (Suc i < w)"
  shows "absent_then_present L w c"
proof -
  let ?k = "min L (w - 1)"
  let ?vs = "map the (drop ?k c)"
  have a: "take ?k c = replicate ?k None"
  proof (rule nth_equalityI)
    show "length (take ?k c) = length (replicate ?k None)" using len by simp
  next
    fix i assume "i < length (take ?k c)"
    then have i: "i < ?k" by simp
    then have "i < L" "Suc i < w" by auto
    then have "c ! i = None" using nth by simp
    then show "take ?k c ! i = replicate ?k None ! i" using i by simp
  qed
  have b: "drop ?k c = map Some ?vs"
  proof (rule nth_equalityI)
    show "length (drop ?k c) = length (map Some ?vs)" by simp
  next
    fix i assume "i < length (drop ?k c)"
    then have i: "?k + i < L" using len by simp
    then have "\<not> Suc (?k + i) < w" by (auto simp: min_def split: if_splits)
    then have "c ! (?k + i) \<noteq> None" using nth[OF i] by simp
    then show "drop ?k c ! i = map Some ?vs ! i"
      using i len by (auto simp: min_def)
  qed
  have "c = take ?k c @ drop ?k c" by simp
  then have "c = replicate ?k None @ map Some ?vs" by (metis a b)
  moreover have "length ?vs = L - (w - 1)" using len by (auto simp: min_def)
  ultimately show ?thesis unfolding absent_then_present_def by blast
qed

lemma sma_warm_up:
  "0 < w \<Longrightarrow> absent_then_present (length cs) w (sma_indicator (map Some cs) w)"
  by (rule absent_then_presentI)
     (auto simp: sma_indicator_def length_rolling_mean rolling_mean_nth)

lemma mavg_warm_up:
  "0 < w \<Longrightarrow> absent_then_present (length cs) w (bollinger_mavg (map Some cs) w)"
  by (rule absent_then_presentI)
     (auto simp: bollinger_mavg_def length_rolling_mean rolling_mean_nth)

lemma hband_warm_up:
  "0 < w \<Longrightarrow> absent_then_present (length cs) w (bollinger_hband (map Some cs) w k)"
  by (rule absent_then_presentI)
     (auto simp: bollinger_hband_def length_rolling_mean length_rolling_std
        rolling_mean_nth rolling_std_nth)

lemma lband_warm_up:
  "0 < w \<Longrightarrow> absent_then_present (length cs) w (bollinger_lband (map Some cs) w k)"
  by (rule absent_then_presentI)
     (auto simp: bollinger_lband_def length_rolling_mean length_rolling_std
        rolling_mean_nth rolling_std_nth)

lemma length_ewm_loop: "length (ewm_loop alpha minp wt ow n xs) = length xs"
  by (induction xs arbitrary: wt ow n) (auto simp: Let_def split: prod.splits)

lemma length_ewm_mean: "length (ewm_mean alpha minp xs) = length xs"
  by (simp add: ewm_mean_def length_ewm_loop)

lemma ewm_loop_present:
  "i < length cs \<Longrightarrow>
   ewm_loop alpha minp (Some e) 1 n (map Some cs) ! i =
     (if minp \<le> n + Suc i
      then Some (foldl (\<lambda>y x. (1 - alpha) * y + alpha * x) e (take (Suc i) cs))
      else None)"
proof (induction cs arbitrary: e n i)
  case Nil
  then show ?case by simp
next
  case (Cons c cs)
  have step: "(if e \<noteq> c then (1 * (1 - alpha) * e + alpha * c) / (1 * (1 - alpha) + alpha) else e)
                = (1 - alpha) * e + alpha * c"
    by (simp add: algebra_simps)
  show ?case
  proof (cases i)
    case 0
    then show ?thesis using step by simp
  next
    case (Suc j)
    then have "j < length cs" using Cons.prems by simp
    from Cons.IH[OF this] show ?thesis using Suc step by simp
  qed
qed

lemma ewm_rec_foldl:
  "i \<le> length cs \<Longrightarrow>
   ewm_rec alpha (x # cs) i = foldl (\<lambda>y x. (1 - alpha) * y + alpha * x) x (take i cs)"
proof (induction i)
  case 0
  then show ?case by simp
next
  case (Suc i)
  then have "i < length cs" by simp
  then show ?case using Suc by (simp add: take_Suc_conv_app_nth)
qed

lemma ewm_mean_present:
  assumes "i < length xs"
  shows "ewm_mean alpha minp (map Some xs) ! i =
           (if max minp 1 \<le> Suc i then Some (ewm_rec alpha xs i) else None)"
proof (cases xs)
  case Nil
  then show ?thesis using assms by simp
next
  case (Cons x cs)
  show ?thesis
  proof (cases i)
    case 0
    then show ?thesis using Cons by (simp add: ewm_mean_def)
  next
    case (Suc j)
    then have j: "j < length cs" using assms Cons by simp
    have "ewm_mean alpha minp (map Some xs) ! i =
            ewm_loop alpha (max minp 1) (Some x) 1 1 (map Some cs) ! j"
      using Cons Suc by (simp add: ewm_mean_def)
    also have "\<dots> = (if max minp 1 \<le> 1 + Suc j
        then Some (foldl (\<lambda>y x. (1 - alpha) * y + alpha * x) x (take (Suc j) cs)) else None)"
      by (rule ewm_loop_present[OF j])
    also have "\<dots> = (if max minp 1 \<le> Suc i then Some (ewm_rec alpha xs i) else None)"
      using ewm_rec_foldl[of "Suc j" cs alpha x] j Cons Suc by simp
    finally show ?thesis .
  qed
qed

lemma ema_indicator_nth:
  assumes "i < length xs" and "0 < w"
  shows "ema_indicator (map Some xs) w ! i =
           (if w \<le> Suc i then Some (ewm_rec (2 / (real w + 1)) xs i) else None)"
  using assms by (simp add: ema_indicator_def ewm_mean_present max_def)

lemma length_ema_indicator: "length (ema_indicator xs w) = length xs"
  by (simp add: ema_indicator_def length_ewm_mean)

lemma ema_warm_up:
  "0 < w \<Longrightarrow> absent_then_present (length cs) w (ema_indicator (map Some cs) w)"
  by (rule absent_then_presentI)
     (auto simp: ema_indicator_nth length_ema_indicator)


lemma add_indicators_columns:
  assumes "data self = Some d" and "map_of (columns d) ''Close'' = Some c"
  shows "fst (add_indicators self) = None"
    and "column_of (snd (add_indicators self)) ''SMA20'' =
           Some (Num (sma_indicator (values_of c) 20))"
    and "column_of (snd (add_indicators self)) ''SMA50'' =
           Some (Num (sma_indicator (values_of c) 50))"
    and "column_of (snd (add_indicators self)) ''EMA20'' =
           Some (Num (ema_indicator (values_of c) 20))"
    and "column_of (snd (add_indicators self)) ''RSI'' =
           Some (Num (rsi (values_of c) 14))"
    and "column_of (snd (add_indicators self)) ''BB_upper'' =
           Some (Num (bollinger_hband (values_of c) 20 2))"
    and "column_of (snd (add_indicators self)) ''BB_lower'' =
           Some (Num (bollinger_lband (values_of c) 20 2))"
    and "column_of (snd (add_indicators self)) ''BB_middle'' =
           Some (Num (bollinger_mavg (values_of c) 20))"
  using assms
  by (simp_all add: add_indicators_def column_of_def stmt_sma20_def stmt_sma50_def
      stmt_ema20_def stmt_rsi_def stmt_bollinger_def getitem_def setitem_def update_conv')

lemma ex_ema20: "ema_indicator (map Some ex_closes) 20 = replicate 19 None @ [Some 2, Some (80/21)]"
  by (simp add: ex_closes_def ema_indicator_def ewm_mean_def numeral_nat)

lemma length_diff1: "length (diff1 xs) = length xs"
  by (simp add: diff1_def length_shift1)

lemma up_direction_shape:
  "\<exists>us. up_direction close = map Some us \<and> length us = length close
        \<and> (\<forall>u\<in>set us. 0 \<le> u)"
proof -
  let ?g = "\<lambda>d. case d of None \<Rightarrow> (0::real) | Some x \<Rightarrow> if 0 < x then x else 0"
  have f: "(if cell_gt d (Some 0) then d else Some 0) = Some (?g d)" for d
    by (cases d) simp_all
  have g: "0 \<le> ?g d" for d
    by (cases d) simp_all
  have 1: "up_direction close = map Some (map ?g (diff1 close))"
    unfolding up_direction_def by (simp add: f)
  have 2: "length (map ?g (diff1 close)) = length close"
    by (simp add: length_diff1)
  have 3: "\<forall>u\<in>set (map ?g (diff1 close)). 0 \<le> u"
  proof
    fix u assume "u \<in> set (map ?g (diff1 close))"
    then obtain d where "u = ?g d" by (auto simp only: set_map)
    then show "0 \<le> u" using g[of d] by simp
  qed
  show ?thesis
    using 1 2 3 by (intro exI[of _ "map ?g (diff1 close)"] conjI)
qed

lemma down_direction_shape:
  "\<exists>ds. down_direction close = map Some ds \<and> length ds = length close
        \<and> (\<forall>u\<in>set ds. 0 \<le> u)"
proof -
  let ?g = "\<lambda>d. case d of None \<Rightarrow> (0::real) | Some x \<Rightarrow> if x < 0 then - x else 0"
  have f: "map_option uminus (if cell_lt d (Some 0) then d else Some 0) = Some (?g d)" for d
    by (cases d) simp_all
  have g: "0 \<le> ?g d" for d
    by (cases d) simp_all
  have 1: "down_direction close = map Some (map ?g (diff1 close))"
    unfolding down_direction_def by (simp add: f)
  have 2: "length (map ?g (diff1 close)) = length close"
    by (simp add: length_diff1)
  have 3: "\<forall>u\<in>set (map ?g (diff1 close)). 0 \<le> u"
  proof
    fix u assume "u \<in> set (map ?g (diff1 close))"
    then obtain d where "u = ?g d" by (auto simp only: set_map)
    then show "0 \<le> u" using g[of d] by simp
  qed
  show ?thesis
    using 1 2 3 by (intro exI[of _ "map ?g (diff1 close)"] conjI)
qed

lemma ewm_rec_nonneg:
  assumes "0 \<le> alpha" and "alpha \<le> 1" and "\<forall>x\<in>set xs. 0 \<le> x" and "i < length xs"
  shows "0 \<le> ewm_rec alpha xs i"
  using assms(4)
proof (induction i)
  case 0
  then show ?case using assms(3) by simp
next
  case (Suc i)
  then have "0 \<le> ewm_rec alpha xs i" by simp
  moreover have "0 \<le> xs ! Suc i" using assms(3) Suc.prems by simp
  ultimately show ?case using assms(1,2) by simp
qed

lemma ewm_mean_nonneg:
  assumes "0 \<le> alpha" and "alpha \<le> 1" and "\<forall>x\<in>set xs. 0 \<le> x" and "i < length xs"
    and "ewm_mean alpha minp (map Some xs) ! i = Some v"
  shows "0 \<le> v"
  using assms ewm_rec_nonneg[OF assms(1-4)]
  by (auto simp: ewm_mean_present split: if_splits)

lemma rsi_cell_bounds:
  assumes "rsi_cell up (Some dn) = Some v" and "0 \<le> dn"
    and "\<And>u. up = Some u \<Longrightarrow> 0 \<le> u"
  shows "0 \<le> v \<and> v \<le> 100"
proof (cases "dn = 0")
  case True
  then show ?thesis using assms(1) by simp
next
  case False
  then obtain u where u: "up = Some u" and v: "v = 100 - 100 / (1 + u / dn)"
    using assms(1) by (cases up) auto
  have "0 \<le> u / dn" using assms(2,3) u by simp
  then have "1 \<le> 1 + u / dn" by simp
  then have "0 \<le> 100 / (1 + u / dn)" "100 / (1 + u / dn) \<le> 100"
    by (simp_all add: divide_le_eq)
  then show ?thesis using v by simp
qed

lemma rsi_nth_bounds:
  assumes "0 < w" and "i < length close" and "rsi close w ! i = Some v"
  shows "0 \<le> v \<and> v \<le> 100"
proof -
  obtain us where us: "up_direction close = map Some us" "\<forall>u\<in>set us. 0 \<le> u"
    and lu: "length us = length close"
    using up_direction_shape[of close] by blast
  obtain ds where ds: "down_direction close = map Some ds" "\<forall>u\<in>set ds. 0 \<le> u"
    and ld: "length ds = length close"
    using down_direction_shape[of close] by blast
  have a: "0 \<le> 1 / real w" "1 / real w \<le> 1" using assms(1) by simp_all
  have i: "i < length (emaup close w)" "i < length (emadn close w)"
    using assms(2) lu ld us(1) ds(1) by (simp_all add: emaup_def emadn_def length_ewm_mean)
  then have r: "rsi close w ! i = rsi_cell (emaup close w ! i) (emadn close w ! i)"
    by (simp add: rsi_def)
  then obtain dn where dn: "emadn close w ! i = Some dn"
    using assms(3) by (cases "emadn close w ! i") auto
  have "0 \<le> dn"
    using ewm_mean_nonneg[OF a ds(2), of i w dn] dn ld assms(2) ds(1) by (simp add: emadn_def)
  moreover have "0 \<le> u" if "emaup close w ! i = Some u" for u
    using ewm_mean_nonneg[OF a us(2), of i w u] that lu assms(2) us(1) by (simp add: emaup_def)
  ultimately show ?thesis
    using rsi_cell_bounds[of "emaup close w ! i" dn v] r dn assms(3) by simp
qed

lemma rsi_nth_full:
  assumes "i < length close" and "emadn close w ! i = Some 0"
  shows "rsi close w ! i = Some 100"
proof -
  have "length (emaup close w) = length close" "length (emadn close w) = length close"
    by (simp_all add: emaup_def emadn_def length_ewm_mean up_direction_def
        down_direction_def length_diff1)
  then show ?thesis using assms by (simp add: rsi_def)
qed

section \<open>The pattern detector\<close>

text \<open>
  C1. In a frame whose columns SMA20 and SMA50 are aligned with the index,
  \<open>identify_patterns\<close> stores as Golden_Cross and Death_Cross two boolean columns of
  the length of the index. At every row \<open>i\<close>, Golden_Cross is true exactly when \<open>i\<close> is
  not the first row, the four values at \<open>i\<close> and \<open>i - 1\<close> are present, and
  \<open>fast[i] > slow[i]\<close> and \<open>fast[i-1] \<le> slow[i-1]\<close>; Death_Cross is true exactly when
  \<open>i\<close> is not the first row, the four values are present, and \<open>fast[i] < slow[i]\<close> and
  \<open>fast[i-1] \<ge> slow[i-1]\<close>. The comparison is strict at \<open>i\<close> and not strict at \<open>i - 1\<close>.
\<close>

theorem crossover_semantics:
  assumes "data self = Some d"
    and "map_of (columns d) ''SMA20'' = Some (Num fast)"
    and "map_of (columns d) ''SMA50'' = Some (Num slow)"
    and "length fast = length (index d)"
    and "length slow = length (index d)"
    and "i < length (index d)"
  shows "column_of (snd (identify_patterns self)) ''Golden_Cross'' =
           Some (Flag (golden_cross fast slow))
       \<and> column_of (snd (identify_patterns self)) ''Death_Cross'' =
           Some (Flag (death_cross fast slow))
       \<and> length (golden_cross fast slow) = length (index d)
       \<and> length (death_cross fast slow) = length (index d)
       \<and> golden_cross fast slow ! i =
           (0 < i \<and> (\<exists>a b a' b'. fast ! i = Some a \<and> slow ! i = Some b
                        \<and> fast ! (i - 1) = Some a' \<and> slow ! (i - 1) = Some b'
                        \<and> a > b \<and> a' \<le> b'))
       \<and> death_cross fast slow ! i =
           (0 < i \<and> (\<exists>a b a' b'. fast ! i = Some a \<and> slow ! i = Some b
                        \<and> fast ! (i - 1) = Some a' \<and> slow ! (i - 1) = Some b'
                        \<and> a < b \<and> a' \<ge> b'))"
proof -
  have g: "column_of (snd (identify_patterns self)) ''Golden_Cross'' =
             Some (Flag (golden_cross fast slow))"
    using identify_patterns_crosses(1)[OF assms(1-3)] by simp
  have dc: "column_of (snd (identify_patterns self)) ''Death_Cross'' =
             Some (Flag (death_cross fast slow))"
    using identify_patterns_crosses(2)[OF assms(1-3)] by simp
  have lg: "length (golden_cross fast slow) = length (index d)"
    using assms(4,5) by (simp add: length_golden_cross)
  have ld: "length (death_cross fast slow) = length (index d)"
    using assms(4,5) by (simp add: length_death_cross)
  have i1: "i < length fast" and i2: "i < length slow"
    using assms(4-6) by simp_all
  have gi: "golden_cross fast slow ! i =
           (0 < i \<and> (\<exists>a b a' b'. fast ! i = Some a \<and> slow ! i = Some b
                        \<and> fast ! (i - 1) = Some a' \<and> slow ! (i - 1) = Some b'
                        \<and> a > b \<and> a' \<le> b'))"
    unfolding golden_cross_nth[OF i1 i2] cell_gt_iff cell_le_iff by blast
  have di: "death_cross fast slow ! i =
           (0 < i \<and> (\<exists>a b a' b'. fast ! i = Some a \<and> slow ! i = Some b
                        \<and> fast ! (i - 1) = Some a' \<and> slow ! (i - 1) = Some b'
                        \<and> a < b \<and> a' \<ge> b'))"
    unfolding death_cross_nth[OF i1 i2] cell_lt_iff cell_ge_iff by blast
  show ?thesis using g dc lg ld gi di by blast
qed

text \<open>
  On the example frame the fast average rises above the slow one at row 2, after the
  two were equal at row 1, and falls below it at row 3.
\<close>

theorem crossover_semantics_witness:
  "golden_cross [None, Some 1, Some 3, Some 1] [None, Some 1, Some 2, Some 2] ! 2
   \<and> death_cross [None, Some 1, Some 3, Some 1] [None, Some 1, Some 2, Some 2] ! 3
   \<and> column_of (snd (identify_patterns ex_analyzer)) ''Golden_Cross'' =
       Some (Flag (golden_cross [None, Some 1, Some 3, Some 1]
                                [None, Some 1, Some 2, Some 2]))"
  using crossover_semantics[of ex_analyzer ex_frame "[None, Some 1, Some 3, Some 1]"
      "[None, Some 1, Some 2, Some 2]" 2]
    crossover_semantics[of ex_analyzer ex_frame "[None, Some 1, Some 3, Some 1]"
      "[None, Some 1, Some 2, Some 2]" 3]
  by (simp add: ex_analyzer_def ex_frame_def)

text \<open>
  C6. Whenever \<open>identify_patterns\<close> returns, the columns Golden_Cross and Death_Cross it
  leaves are never both true at the same row.
\<close>

theorem crosses_exclusive:
  assumes "identify_patterns self = (None, self')"
    and "column_of self' ''Golden_Cross'' = Some (Flag g)"
    and "column_of self' ''Death_Cross'' = Some (Flag dc)"
    and "i < length g" and "i < length dc"
  shows "\<not> (g ! i \<and> dc ! i)"
proof -
  obtain d fast slow where d: "data self = Some d"
    and f: "map_of (columns d) ''SMA20'' = Some fast"
    and s: "map_of (columns d) ''SMA50'' = Some slow"
    using identify_patterns_returns[OF assms(1)] by blast
  have "g = golden_cross (values_of fast) (values_of slow)"
    using identify_patterns_crosses(1)[OF d f s] assms(1,2) by simp
  moreover have "dc = death_cross (values_of fast) (values_of slow)"
    using identify_patterns_crosses(2)[OF d f s] assms(1,3) by simp
  moreover have "i < length (values_of fast)" "i < length (values_of slow)"
    using assms(4) calculation(1) by (simp_all add: length_golden_cross)
  ultimately show ?thesis
    using not_gt_and_lt[of "values_of fast ! i" "values_of slow ! i"]
    by (auto simp: golden_cross_nth death_cross_nth)
qed

theorem crosses_exclusive_witness:
  "identify_patterns ex_patterns = (None, snd (identify_patterns ex_patterns))
   \<and> column_of (snd (identify_patterns ex_patterns)) ''Golden_Cross'' =
       Some (Flag [False, False, True, False])
   \<and> column_of (snd (identify_patterns ex_patterns)) ''Death_Cross'' =
       Some (Flag [False, False, False, True])
   \<and> \<not> ([False, False, True, False] ! 2 \<and> [False, False, False, True] ! 2)"
proof -
  have r: "identify_patterns ex_patterns = (None, snd (identify_patterns ex_patterns))"
    by (simp add: identify_patterns_def ex_patterns_def ex_analyzer_def ex_frame_def
        stmt_golden_cross_def stmt_death_cross_def stmt_oversold_def stmt_overbought_def
        getitem_def setitem_def)
  have g: "column_of (snd (identify_patterns ex_patterns)) ''Golden_Cross'' =
       Some (Flag [False, False, True, False])"
    by (simp add: identify_patterns_def ex_patterns_def ex_analyzer_def ex_frame_def
        stmt_golden_cross_def stmt_death_cross_def stmt_oversold_def stmt_overbought_def
        getitem_def setitem_def column_of_def golden_cross_def shift1_def)
  have dc: "column_of (snd (identify_patterns ex_patterns)) ''Death_Cross'' =
       Some (Flag [False, False, False, True])"
    by (simp add: identify_patterns_def ex_patterns_def ex_analyzer_def ex_frame_def
        stmt_golden_cross_def stmt_death_cross_def stmt_oversold_def stmt_overbought_def
        getitem_def setitem_def column_of_def death_cross_def shift1_def)
  have "\<not> ([False, False, True, False] ! 2 \<and> [False, False, False, True] ! 2)"
    by (rule crosses_exclusive[OF r g dc]) simp_all
  with r g dc show ?thesis by blast
qed

text \<open>
  C10. On an analyzer as the constructor leaves it, for a provider whose frames have no
  column SMA20, \<open>identify_patterns\<close> raises KeyError for SMA20 at its first statement and
  leaves the analyzer as it was: no signal column is stored.
\<close>

theorem identify_patterns_needs_indicators:
  assumes "init yf_history year_ago today symbol0 start0 end0 = Inr self"
    and "\<And>ticker s e. map_of (columns (yf_history ticker s e)) ''SMA20'' = None"
  shows "identify_patterns self = (Some (KeyError ''SMA20''), self)"
  using assms
  by (auto simp: init_def load_data_def Let_def identify_patterns_def stmt_golden_cross_def
      getitem_def split: if_splits)

theorem identify_patterns_needs_indicators_witness:
  "\<exists>self. init ex_history ''2023-01-05'' ''2024-01-05'' ''BTC'' None None = Inr self
     \<and> identify_patterns self = (Some (KeyError ''SMA20''), self)
     \<and> column_of self ''Golden_Cross'' = None"
proof -
  let ?self = "\<lparr>symbol = ''BTC'', start_date = ''2023-01-05'', end_date = ''2024-01-05'',
     data = Some (ex_history ''BTC-USD'' ''2023-01-05'' ''2024-01-05'')\<rparr>"
  have i: "init ex_history ''2023-01-05'' ''2024-01-05'' ''BTC'' None None = Inr ?self"
    by (simp add: init_def load_data_def empty_def ex_history_def)
  have "identify_patterns ?self = (Some (KeyError ''SMA20''), ?self)"
    by (rule identify_patterns_needs_indicators[OF i]) (simp add: ex_history_def)
  moreover have "column_of ?self ''Golden_Cross'' = None"
    by (simp add: column_of_def ex_history_def)
  ultimately show ?thesis using i by blast
qed

section \<open>The constructor\<close>

text \<open>
  C8. When the provider has no bars, the constructor raises the ValueError of
  \<open>load_data\<close> and no analyzer exists; the run of \<open>main\<close> ends with that error, before
  \<open>add_indicators\<close> is called.
\<close>

theorem empty_series_aborts:
  assumes "\<And>ticker s e. index (yf_history ticker s e) = []"
  shows "init yf_history year_ago today symbol0 start0 end0 =
           Inl (ValueError (''No data found for '' @ symbol0))
       \<and> main rt yf_history year_ago today = Inl (ValueError ''No data found for BTC'')"
  using assms by (simp add: main_def init_def load_data_def empty_def)

theorem empty_series_aborts_witness:
  "init no_history ''2023-01-05'' ''2024-01-05'' ''ETH'' None (Some ''2024-01-01'') =
     Inl (ValueError ''No data found for ETH'')
   \<and> main ex_runtime no_history ''2023-01-05'' ''2024-01-05'' =
     Inl (ValueError ''No data found for BTC'')"
  using empty_series_aborts[of no_history "''2023-01-05''" "''2024-01-05''" "''ETH''"
      None "Some ''2024-01-01''" ex_runtime]
  by (simp add: no_history_def)

section \<open>The report reducer\<close>










text \<open>
  With a pandas that looks an integer key up as a label of the date index, the first
  read of the report, \<open>Close[-1]\<close>, raises KeyError, whatever the frame holds.
\<close>

lemma generate_report_by_label:
  assumes "\<not> positional rt" and "data self = Some d"
    and "map_of (columns d) ''Close'' = Some c"
  shows "generate_report rt self = (Inl (IntKeyError (- 1)), self)"
  using assms
  by (simp add: generate_report_def bind_action_def read_frame_def read_attribute_def
      cell_at_def getitem_def series_getitem_def)






section \<open>The indicator engine\<close>

text \<open>
  C5. For closes without NaN, of any length \<open>L\<close>, and any window \<open>w > 0\<close>, the simple
  and the exponential moving average and the three Bollinger bands are columns of \<open>L\<close>
  rows whose first \<open>w - 1\<close> rows are absent (all rows when \<open>L < w\<close>) and whose
  remaining \<open>L - w + 1\<close> rows are present; \<open>add_indicators\<close> stores them with the
  windows 20, 50, 20 and 20 as SMA20, SMA50, EMA20, BB_upper, BB_lower and BB_middle.
\<close>

theorem warm_up_columns:
  assumes "data self = Some d"
    and "map_of (columns d) ''Close'' = Some (Num (map Some closes))"
    and "0 < w"
  shows "absent_then_present (length closes) w (sma_indicator (map Some closes) w)
       \<and> absent_then_present (length closes) w (ema_indicator (map Some closes) w)
       \<and> absent_then_present (length closes) w (bollinger_mavg (map Some closes) w)
       \<and> absent_then_present (length closes) w (bollinger_hband (map Some closes) w k)
       \<and> absent_then_present (length closes) w (bollinger_lband (map Some closes) w k)
       \<and> column_of (snd (add_indicators self)) ''SMA20'' =
           Some (Num (sma_indicator (map Some closes) 20))
       \<and> column_of (snd (add_indicators self)) ''SMA50'' =
           Some (Num (sma_indicator (map Some closes) 50))
       \<and> column_of (snd (add_indicators self)) ''EMA20'' =
           Some (Num (ema_indicator (map Some closes) 20))
       \<and> column_of (snd (add_indicators self)) ''BB_upper'' =
           Some (Num (bollinger_hband (map Some closes) 20 2))
       \<and> column_of (snd (add_indicators self)) ''BB_lower'' =
           Some (Num (bollinger_lband (map Some closes) 20 2))
       \<and> column_of (snd (add_indicators self)) ''BB_middle'' =
           Some (Num (bollinger_mavg (map Some closes) 20))"
  using add_indicators_columns(2-4,6-8)[OF assms(1,2)] assms(3)
  by (simp add: sma_warm_up ema_warm_up mavg_warm_up hband_warm_up lband_warm_up)

theorem warm_up_columns_witness:
  "absent_then_present 21 20 (sma_indicator (map Some ex_closes) 20)
   \<and> absent_then_present 21 20 (ema_indicator (map Some ex_closes) 20)
   \<and> absent_then_present 21 20 (bollinger_hband (map Some ex_closes) 20 2)
   \<and> column_of (snd (add_indicators ex_loaded)) ''SMA20'' =
       Some (Num (sma_indicator (map Some ex_closes) 20))
   \<and> column_of (snd (add_indicators ex_loaded)) ''SMA50'' =
       Some (Num (sma_indicator (map Some ex_closes) 50))"
proof -
  have d: "data ex_loaded = Some \<lparr>index = map (\<lambda>n. ''bar'') ex_closes,
                   columns = [(''Close'', Num (map Some ex_closes))]\<rparr>"
    by (simp add: ex_loaded_def)
  have l: "length ex_closes = 21" by (simp add: ex_closes_def)
  show ?thesis
    using warm_up_columns[OF d, of ex_closes 20 2] l by simp
qed

text \<open>
  C4. The claim that the exponential average equals the simple mean of the first
  \<open>w\<close> closes at its first present row: on nineteen closes of 0 followed by 21, the
  EMA20 column is 2 at row 19, and the mean of the first twenty closes is 21/20.
\<close>

theorem ema_seed_counterexample:
  "ema_indicator (map Some ex_closes) 20 ! 19 = Some 2
   \<and> mean (take 20 ex_closes) = 21 / 20
   \<and> column_of (snd (add_indicators ex_loaded)) ''EMA20'' =
       Some (Num (ema_indicator (map Some ex_closes) 20))"
proof -
  have "ema_indicator (map Some ex_closes) 20 ! 19 = Some 2"
    by (simp add: ex_ema20 nth_append)
  moreover have "mean (take 20 ex_closes) = 21 / 20"
    by (simp add: ex_closes_def mean_def)
  moreover have "column_of (snd (add_indicators ex_loaded)) ''EMA20'' =
       Some (Num (ema_indicator (map Some ex_closes) 20))"
    using add_indicators_columns(4)[of ex_loaded _ "Num (map Some ex_closes)"]
    by (simp add: ex_loaded_def)
  ultimately show ?thesis by blast
qed

text \<open>
  C4, as amended. For closes without NaN and a window \<open>w > 0\<close>, the exponential
  average is absent before row \<open>w - 1\<close>. From row \<open>w - 1\<close> on it is the value of the
  recursion that starts with the first close at row 0 and continues with
  \<open>alpha * close[i] + (1 - alpha) * previous\<close> for \<open>alpha = 2 / (w + 1)\<close>; so after
  row \<open>w - 1\<close> each value is \<open>alpha * close[i] + (1 - alpha) * ema[i-1]\<close>. The value at
  row \<open>w - 1\<close> itself is that recursion's, not the simple mean of the first \<open>w\<close>
  closes. \<open>add_indicators\<close> stores the average of window 20 as EMA20.
\<close>

theorem ema_recurrence:
  assumes "data self = Some d"
    and "map_of (columns d) ''Close'' = Some (Num (map Some closes))"
    and "0 < w" and "i < length closes"
  shows "column_of (snd (add_indicators self)) ''EMA20'' =
           Some (Num (ema_indicator (map Some closes) 20))
       \<and> length (ema_indicator (map Some closes) w) = length closes
       \<and> (Suc i < w \<longrightarrow> ema_indicator (map Some closes) w ! i = None)
       \<and> (w \<le> Suc i \<longrightarrow>
            ema_indicator (map Some closes) w ! i =
              Some (ewm_rec (2 / (real w + 1)) closes i))
       \<and> (w \<le> i \<longrightarrow>
            (\<exists>prev. ema_indicator (map Some closes) w ! (i - 1) = Some prev
               \<and> ema_indicator (map Some closes) w ! i =
                   Some (2 / (real w + 1) * closes ! i + (1 - 2 / (real w + 1)) * prev)))"
proof -
  have c: "column_of (snd (add_indicators self)) ''EMA20'' =
           Some (Num (ema_indicator (map Some closes) 20))"
    using add_indicators_columns(4)[OF assms(1,2)] by simp
  have n: "ema_indicator (map Some closes) w ! i =
             (if w \<le> Suc i then Some (ewm_rec (2 / (real w + 1)) closes i) else None)"
    by (rule ema_indicator_nth[OF assms(4,3)])
  have r: "\<exists>prev. ema_indicator (map Some closes) w ! (i - 1) = Some prev
               \<and> ema_indicator (map Some closes) w ! i =
                   Some (2 / (real w + 1) * closes ! i + (1 - 2 / (real w + 1)) * prev)"
    if wi: "w \<le> i"
  proof -
    obtain j where j: "i = Suc j" using wi assms(3) by (cases i) auto
    have "j < length closes" using assms(4) j by simp
    then have "ema_indicator (map Some closes) w ! j =
                 Some (ewm_rec (2 / (real w + 1)) closes j)"
      using ema_indicator_nth[of j closes w] assms(3) wi j by simp
    moreover have "ema_indicator (map Some closes) w ! i =
        Some (2 / (real w + 1) * closes ! i
              + (1 - 2 / (real w + 1)) * ewm_rec (2 / (real w + 1)) closes j)"
      using n wi j by simp
    ultimately show ?thesis using j by simp
  qed
  show ?thesis using c n r by (simp add: length_ema_indicator)
qed

theorem ema_recurrence_witness:
  "ema_indicator (map Some ex_closes) 20 ! 18 = None
   \<and> ema_indicator (map Some ex_closes) 20 ! 19 = Some (ewm_rec (2 / 21) ex_closes 19)
   \<and> ema_indicator (map Some ex_closes) 20 ! 20 = Some (ewm_rec (2 / 21) ex_closes 20)
   \<and> length (ema_indicator (map Some ex_closes) 20) = 21"
proof -
  have d: "data ex_loaded = Some \<lparr>index = map (\<lambda>n. ''bar'') ex_closes,
                   columns = [(''Close'', Num (map Some ex_closes))]\<rparr>"
    by (simp add: ex_loaded_def)
  have l: "length ex_closes = 21" by (simp add: ex_closes_def)
  show ?thesis
    using ema_recurrence[OF d, of ex_closes 20 18] ema_recurrence[OF d, of ex_closes 20 19]
      ema_recurrence[OF d, of ex_closes 20 20] l
    by simp
qed

text \<open>
  C3. For any Close column and any window \<open>w > 0\<close>, a present value of the RSI lies
  between 0 and 100, and the RSI is exactly 100 wherever the smoothed average loss is
  0; \<open>add_indicators\<close> stores the RSI of window 14 as RSI.
\<close>

theorem rsi_range:
  assumes "data self = Some d"
    and "map_of (columns d) ''Close'' = Some c"
    and "0 < w" and "i < col_length c"
  shows "column_of (snd (add_indicators self)) ''RSI'' = Some (Num (rsi (values_of c) 14))
       \<and> length (rsi (values_of c) w) = col_length c
       \<and> (\<forall>v. rsi (values_of c) w ! i = Some v \<longrightarrow> 0 \<le> v \<and> v \<le> 100)
       \<and> (emadn (values_of c) w ! i = Some 0 \<longrightarrow> rsi (values_of c) w ! i = Some 100)"
proof -
  have i: "i < length (values_of c)" using assms(4) by (simp add: length_values_of)
  have "length (rsi (values_of c) w) = col_length c"
    by (simp add: rsi_def emaup_def emadn_def length_ewm_mean up_direction_def
        down_direction_def length_diff1 length_values_of)
  then show ?thesis
    using add_indicators_columns(5)[OF assms(1,2)] rsi_nth_bounds[OF assms(3) i]
      rsi_nth_full[OF i]
    by blast
qed

theorem rsi_range_witness:
  "emadn (map Some [1, 2, 3, 2, 5, 1]) 3 ! 2 = Some 0
   \<and> rsi (map Some [1, 2, 3, 2, 5, 1]) 3 ! 2 = Some 100
   \<and> rsi (map Some [1, 2, 3, 2, 5, 1]) 3 ! 3 = Some (1000 / 19)
   \<and> (0::real) \<le> 1000 / 19 \<and> (1000 / 19 :: real) \<le> 100"
proof -
  have d: "data ex_short = Some \<lparr>index = [''2024-01-01'', ''2024-01-02'', ''2024-01-03'',
                            ''2024-01-04'', ''2024-01-05'', ''2024-01-06''],
                   columns = [(''Close'', Num (map Some [1, 2, 3, 2, 5, 1]))]\<rparr>"
    by (simp add: ex_short_def)
  have dn: "emadn (map Some [1, 2, 3, 2, 5, 1]) 3 ! 2 = Some 0"
    by (simp add: emadn_def down_direction_def diff1_def shift1_def ewm_mean_def)
  have r3: "rsi (map Some [1, 2, 3, 2, 5, 1]) 3 ! 3 = Some (1000 / 19)"
    by (simp add: rsi_def emaup_def emadn_def up_direction_def down_direction_def diff1_def
        shift1_def ewm_mean_def)
  show ?thesis
    using rsi_range[OF d, of "Num (map Some [1, 2, 3, 2, 5, 1])" 3 2]
      rsi_range[OF d, of "Num (map Some [1, 2, 3, 2, 5, 1])" 3 3] dn r3
    by simp
qed

section \<open>The indicator library on examples\<close>

text \<open>
  C7. On the twelve closes 10, ..., 10, 12 the simple moving average of window 10 is
  absent at the rows 0 to 8 and is 10, 10 and 10.2 at the rows 9, 10 and 11.
\<close>

theorem sma_example:
  "sma_indicator (map Some [10, 10, 10, 10, 10, 10, 10, 10, 10, 10, 10, 12]) 10 =
     [None, None, None, None, None, None, None, None, None,
      Some 10, Some 10, Some (102 / 10)]"
  by (simp add: sma_indicator_def rolling_mean_def rolling_window_def mean_def upt_rec
      numeral_nat)

end
